theory Spec2Isabelle
  imports Main "HOL-Library.AList" "HOL-Library.Char_ord" "HOL-Library.List_Lexorder"
begin

section \<open>Values of the chain\<close>

text \<open>
  The chain of \<^verbatim>\<open>src/flipkart/rag_chain.py\<close> passes Python values between its steps:
  strings, lists of chat messages, lists of retrieved documents, and dictionaries keyed
  by strings. A dictionary is an association list in insertion order with distinct keys.
\<close>

datatype message = SystemMessage string | HumanMessage string | AIMessage string

datatype document = Document (page_content: string) (metadata: "(string \<times> string) list")

datatype val =
    Str string
  | Messages "message list"
  | Documents "document list"
  | Dict "(string \<times> val) list"

type_synonym dict = "(string \<times> val) list"

text \<open>
  Exceptions are values. \<open>KeyError\<close> carries the missing keys; \<open>UpstreamError\<close> is
  whatever the hosted model or the vector store raises (network, rate limit, model error).
\<close>

datatype error =
    KeyError "string list"
  | ValueError
  | AttributeError
  | NotImplementedError
  | UpstreamError string

text \<open>Python truthiness, as used by \<^verbatim>\<open>not x.get("chat_history", False)\<close>.\<close>

fun truthy :: "val \<Rightarrow> bool" where
  "truthy (Str s) = (s \<noteq> [])"
| "truthy (Messages ms) = (ms \<noteq> [])"
| "truthy (Documents ds) = (ds \<noteq> [])"
| "truthy (Dict d) = (d \<noteq> [])"

text \<open>Collecting results in order; the first exception wins.\<close>

fun collect :: "(error + 'a) list \<Rightarrow> error + 'a list" where
  "collect [] = Inr []"
| "collect (r # rs) =
     (case r of
        Inl e \<Rightarrow> Inl e
      | Inr v \<Rightarrow> (case collect rs of Inl e \<Rightarrow> Inl e | Inr vs \<Rightarrow> Inr (v # vs)))"

section \<open>The orchestration library's building blocks\<close>

subsection \<open>Chat prompt templates\<close>

text \<open>
  A message template is a role with an f-string, here a list of literal pieces and
  \<^verbatim>\<open>{variable}\<close> pieces, or a \<^verbatim>\<open>MessagesPlaceholder\<close> that splices a list of messages.
\<close>

datatype part = Lit string | Var string

datatype message_template =
    SystemTemplate "part list"
  | HumanTemplate "part list"
  | MessagesPlaceholder string

fun part_variables :: "part \<Rightarrow> string list" where
  "part_variables (Lit s) = []"
| "part_variables (Var v) = [v]"

fun template_variables :: "message_template \<Rightarrow> string list" where
  "template_variables (SystemTemplate ps) = concat (map part_variables ps)"
| "template_variables (HumanTemplate ps) = concat (map part_variables ps)"
| "template_variables (MessagesPlaceholder v) = [v]"

text \<open>The input variables of a prompt are the set of its variables, kept sorted.\<close>

definition input_variables :: "message_template list \<Rightarrow> string list" where
  "input_variables prompt = sort (remdups (concat (map template_variables prompt)))"

text \<open>
  An f-string inserts a string as it is and any other value through Python's \<^verbatim>\<open>str()\<close>.
  The text \<^verbatim>\<open>str()\<close> gives for dictionaries and lists is not modelled: it is the
  parameter \<open>py_str\<close> of everything that renders a prompt.
\<close>

fun format_value :: "(val \<Rightarrow> string) \<Rightarrow> val \<Rightarrow> string" where
  "format_value py_str (Str s) = s"
| "format_value py_str v = py_str v"

fun format_part :: "(val \<Rightarrow> string) \<Rightarrow> dict \<Rightarrow> part \<Rightarrow> error + string" where
  "format_part py_str d (Lit s) = Inr s"
| "format_part py_str d (Var v) =
     (case map_of d v of
        None \<Rightarrow> Inl (KeyError [v])
      | Some x \<Rightarrow> Inr (format_value py_str x))"

definition format_text :: "(val \<Rightarrow> string) \<Rightarrow> dict \<Rightarrow> part list \<Rightarrow> error + string" where
  "format_text py_str d ps = map_sum id concat (collect (map (format_part py_str d) ps))"

text \<open>
  A placeholder wants a list under its variable (\<^verbatim>\<open>ValueError\<close> otherwise) and converts
  its elements to messages; a document is not convertible (\<^verbatim>\<open>NotImplementedError\<close>). An
  empty list of anything is the empty Python list.
\<close>

fun placeholder_messages :: "val \<Rightarrow> error + message list" where
  "placeholder_messages (Messages ms) = Inr ms"
| "placeholder_messages (Documents ds) = (if ds = [] then Inr [] else Inl NotImplementedError)"
| "placeholder_messages (Str s) = Inl ValueError"
| "placeholder_messages (Dict d) = Inl ValueError"

fun format_message :: "(val \<Rightarrow> string) \<Rightarrow> dict \<Rightarrow> message_template \<Rightarrow> error + message list" where
  "format_message py_str d (SystemTemplate ps) =
     map_sum id (\<lambda>s. [SystemMessage s]) (format_text py_str d ps)"
| "format_message py_str d (HumanTemplate ps) =
     map_sum id (\<lambda>s. [HumanMessage s]) (format_text py_str d ps)"
| "format_message py_str d (MessagesPlaceholder v) =
     (case map_of d v of
        None \<Rightarrow> Inl (KeyError [v])
      | Some x \<Rightarrow> placeholder_messages x)"

text \<open>
  Invoking a prompt on a dictionary first checks that every input variable is a key
  (\<^verbatim>\<open>KeyError\<close> naming the missing ones otherwise), then renders the messages in order.
\<close>

definition missing_variables :: "message_template list \<Rightarrow> dict \<Rightarrow> string list" where
  "missing_variables prompt d = filter (\<lambda>v. map_of d v = None) (input_variables prompt)"

definition prompt_invoke ::
  "(val \<Rightarrow> string) \<Rightarrow> message_template list \<Rightarrow> dict \<Rightarrow> error + message list" where
  "prompt_invoke py_str prompt d =
     (if missing_variables prompt d \<noteq> [] then Inl (KeyError (missing_variables prompt d))
      else map_sum id concat (collect (map (format_message py_str d) prompt)))"

subsection \<open>Runnable maps\<close>

text \<open>
  A dictionary of runnables on the left of \<^verbatim>\<open>|\<close> is a \<^verbatim>\<open>RunnableParallel\<close>: every
  entry is invoked on the same input and the outputs are gathered under the entries' keys,
  in the order of the keys; the first entry in that order that raised decides the
  exception. The library may run the entries concurrently; only their results are
  modelled. \<^verbatim>\<open>RunnablePassthrough()\<close> returns its input.
\<close>

definition RunnablePassthrough :: "dict \<Rightarrow> error + val" where
  "RunnablePassthrough x = Inr (Dict x)"

definition RunnableParallel :: "(string \<times> (dict \<Rightarrow> error + val)) list \<Rightarrow> dict \<Rightarrow> error + dict" where
  "RunnableParallel steps x =
     map_sum id (zip (map fst steps)) (collect (map (\<lambda>step. snd step x) steps))"

subsection \<open>Sequences\<close>

text \<open>\<^verbatim>\<open>f | g\<close>: the output of \<open>f\<close> is the input of \<open>g\<close>; an exception of \<open>f\<close> ends the run.\<close>

definition pipe :: "('a \<Rightarrow> error + 'b) \<Rightarrow> ('b \<Rightarrow> error + 'c) \<Rightarrow> 'a \<Rightarrow> error + 'c" where
  "pipe f g x = (case f x of Inl e \<Rightarrow> Inl e | Inr y \<Rightarrow> g y)"

text \<open>
  The chat model maps the prompt's messages to the text of its reply, or raises;
  \<^verbatim>\<open>StrOutputParser()\<close> hands that text on as a string.
\<close>

definition StrOutputParser :: "string \<Rightarrow> error + val" where
  "StrOutputParser s = Inr (Str s)"

text \<open>\<^verbatim>\<open>RunnablePassthrough.assign(key=f)\<close>: the input dictionary with \<open>key\<close> set to \<open>f\<close>'s output.\<close>

definition assign :: "string \<Rightarrow> (dict \<Rightarrow> error + val) \<Rightarrow> dict \<Rightarrow> error + dict" where
  "assign key f x = map_sum id (\<lambda>v. AList.update key v x) (f x)"

subsection \<open>Retrievers\<close>

text \<open>
  The vector store is external: a similarity search taking the query and the number \<open>k\<close>
  of documents wanted. \<^verbatim>\<open>as_retriever(search_kwargs={"k": k})\<close> fixes \<open>k\<close>.
\<close>

definition as_retriever :: "(val \<Rightarrow> nat \<Rightarrow> error + document list) \<Rightarrow> nat \<Rightarrow> val \<Rightarrow> error + val" where
  "as_retriever store k query = map_sum id Documents (store query k)"

text \<open>
  \<^verbatim>\<open>create_history_aware_retriever(llm, retriever, prompt)\<close>: without chat history the
  input goes to the retriever as it is; with chat history the prompt and the model produce
  the search query.
\<close>

definition create_history_aware_retriever ::
  "(val \<Rightarrow> string) \<Rightarrow> (message list \<Rightarrow> error + string) \<Rightarrow> (val \<Rightarrow> error + val) \<Rightarrow>
   message_template list \<Rightarrow> dict \<Rightarrow> error + val" where
  "create_history_aware_retriever py_str llm retriever prompt x =
     (if \<not> (case map_of x ''chat_history'' of None \<Rightarrow> False | Some v \<Rightarrow> truthy v)
      then (case map_of x ''input'' of
              None \<Rightarrow> Inl (KeyError [''input''])
            | Some q \<Rightarrow> retriever q)
      else pipe (pipe (pipe (prompt_invoke py_str prompt) llm) StrOutputParser) retriever x)"

subsection \<open>Stuffing documents into a prompt\<close>

fun join :: "string \<Rightarrow> string list \<Rightarrow> string" where
  "join sep [] = []"
| "join sep [s] = s"
| "join sep (s # t # ss) = s @ sep @ join sep (t # ss)"

text \<open>
  Each document is rendered by the default document prompt \<^verbatim>\<open>{page_content}\<close>; the
  renderings are joined by a blank line. Iterating over an empty value renders nothing;
  a non-empty value that is not a list of documents has no \<^verbatim>\<open>page_content\<close>.
\<close>

fun documents_of :: "val \<Rightarrow> error + document list" where
  "documents_of (Documents ds) = Inr ds"
| "documents_of v = (if truthy v then Inl AttributeError else Inr [])"

definition format_docs :: "dict \<Rightarrow> error + val" where
  "format_docs inputs =
     (case map_of inputs ''context'' of
        None \<Rightarrow> Inl (KeyError [''context''])
      | Some v \<Rightarrow>
          map_sum id (\<lambda>ds. Str (join ''\<newline>\<newline>'' (map page_content ds))) (documents_of v))"

definition create_stuff_documents_chain ::
  "(val \<Rightarrow> string) \<Rightarrow> (message list \<Rightarrow> error + string) \<Rightarrow> message_template list \<Rightarrow>
   dict \<Rightarrow> error + val" where
  "create_stuff_documents_chain py_str llm prompt =
     pipe (pipe (pipe (assign ''context'' format_docs) (prompt_invoke py_str prompt)) llm)
       StrOutputParser"

subsection \<open>Chat histories and the history wrapper\<close>

text \<open>
  \<^verbatim>\<open>ChatMessageHistory\<close> objects are mutable and shared by reference, so they live in a
  heap: the object at address \<open>a\<close> of heap \<open>h\<close> holds the messages \<open>h ! a\<close>.
  \<^verbatim>\<open>ChatMessageHistory()\<close> allocates the next address with no messages;
  \<^verbatim>\<open>add_messages\<close> appends in place. A Python reference always names a live object:
  the states meant are those in which every stored address lies inside the heap
  (\<open>valid\<close> below).
\<close>

type_synonym heap = "message list list"

definition ChatMessageHistory :: "heap \<Rightarrow> nat \<times> heap" where
  "ChatMessageHistory h = (length h, h @ [[]])"

definition add_messages :: "heap \<Rightarrow> nat \<Rightarrow> message list \<Rightarrow> heap" where
  "add_messages h a ms = h[a := h ! a @ ms]"

text \<open>
  What the wrapper records of a run. A string becomes one message of the given role; a
  list of messages is taken as it is. The run's outputs are a dictionary: an output that
  is not one is filed under \<^verbatim>\<open>"output"\<close>.
\<close>

fun messages_of :: "(string \<Rightarrow> message) \<Rightarrow> val \<Rightarrow> error + message list" where
  "messages_of role (Str s) = Inr [role s]"
| "messages_of role (Messages ms) = Inr ms"
| "messages_of role (Documents ds) = Inl ValueError"
| "messages_of role (Dict d) = Inl ValueError"

definition get_messages :: "(string \<Rightarrow> message) \<Rightarrow> string \<Rightarrow> dict \<Rightarrow> error + message list" where
  "get_messages role key d =
     (case map_of d key of
        None \<Rightarrow> Inl (KeyError [key])
      | Some v \<Rightarrow> messages_of role v)"

fun run_outputs :: "val \<Rightarrow> dict" where
  "run_outputs (Dict d) = d"
| "run_outputs v = [(''output'', v)]"

text \<open>
  The listener that runs when the wrapped runnable has returned: it appends the input
  messages, then the output messages, to the session's history. An exception inside the
  listener is logged, not raised: nothing is appended then.
\<close>

definition exit_history :: "string \<Rightarrow> string \<Rightarrow> heap \<Rightarrow> nat \<Rightarrow> dict \<Rightarrow> val \<Rightarrow> heap" where
  "exit_history input_messages_key output_messages_key h hist inputs out =
     (case get_messages HumanMessage input_messages_key inputs of
        Inl e \<Rightarrow> h
      | Inr input_messages \<Rightarrow>
          (case get_messages AIMessage output_messages_key (run_outputs out) of
             Inl e \<Rightarrow> h
           | Inr output_messages \<Rightarrow> add_messages h hist (input_messages @ output_messages)))"

text \<open>
  \<^verbatim>\<open>RunnableWithMessageHistory(runnable, get_session_history, input_messages_key,
  history_messages_key, output_messages_key)\<close>, invoked on a dictionary \<open>x\<close> for a session:
  it fetches the session's history object, puts a copy of its messages into \<open>x\<close> under
  \<open>history_messages_key\<close>, runs the runnable, and on its return runs the listener. An
  exception of the runnable reaches the caller and the listener does not run. The state
  \<open>s\<close> threaded through is whatever \<open>get_session_history\<close> reads and writes.
\<close>

definition RunnableWithMessageHistory ::
  "('s \<Rightarrow> dict \<Rightarrow> error + val) \<Rightarrow> ('s \<Rightarrow> heap \<Rightarrow> string \<Rightarrow> (error + nat) \<times> 's \<times> heap) \<Rightarrow>
   string \<Rightarrow> string \<Rightarrow> string \<Rightarrow> 's \<Rightarrow> heap \<Rightarrow> dict \<Rightarrow> string \<Rightarrow> (error + val) \<times> 's \<times> heap" where
  "RunnableWithMessageHistory runnable get_session_history input_messages_key
       history_messages_key output_messages_key s h x session_id =
     (case get_session_history s h session_id of
        (Inl e, s', h') \<Rightarrow> (Inl e, s', h')
      | (Inr hist, s', h') \<Rightarrow>
          (let x' = AList.update history_messages_key (Messages (h' ! hist)) x in
           case runnable s' x' of
             Inl e \<Rightarrow> (Inl e, s', h')
           | Inr out \<Rightarrow>
               (Inr out, s',
                exit_history input_messages_key output_messages_key h' hist x' out)))"

section \<open>The chain builder\<close>

text \<open>
  \<^verbatim>\<open>RAGChainBuilder.__init__\<close>: the vector store handed in, the hosted chat model and an
  empty dictionary from session ids to history objects. The vector store and the model
  are external: the store is its similarity search, the model the reply it gives to a
  prompt. Both may raise.
\<close>

record RAGChainBuilder =
  vector_store :: "val \<Rightarrow> nat \<Rightarrow> error + document list"
  model :: "message list \<Rightarrow> error + string"
  history_store :: "string \<rightharpoonup> nat"

definition init ::
  "(val \<Rightarrow> nat \<Rightarrow> error + document list) \<Rightarrow> (message list \<Rightarrow> error + string) \<Rightarrow> RAGChainBuilder" where
  "init store chat_model =
     \<lparr>vector_store = store, model = chat_model, history_store = Map.empty\<rparr>"

text \<open>
  \<^verbatim>\<open>_get_history\<close>: if the id is not a key, a new history object is stored under it;
  then the object under the id is returned (a \<^verbatim>\<open>KeyError\<close> of the final lookup is a
  branch of the model).
\<close>

definition get_history ::
  "RAGChainBuilder \<Rightarrow> heap \<Rightarrow> string \<Rightarrow> (error + nat) \<times> RAGChainBuilder \<times> heap" where
  "get_history self h session_id =
     (let (self', h') =
        (if history_store self session_id = None
         then (let (a, h1) = ChatMessageHistory h
               in (self\<lparr>history_store := (history_store self)(session_id \<mapsto> a)\<rparr>, h1))
         else (self, h))
      in (case history_store self' session_id of
            None \<Rightarrow> Inl (KeyError [session_id])
          | Some a \<Rightarrow> Inr a,
          self', h'))"

subsection \<open>\<^verbatim>\<open>build_chain\<close>\<close>

text \<open>\<^verbatim>\<open>retriever = self.vector_store.as_retriever(search_kwargs={"k": 3})\<close>\<close>

definition retriever :: "RAGChainBuilder \<Rightarrow> val \<Rightarrow> error + val" where
  "retriever self = as_retriever (vector_store self) 3"

text \<open>1) Rewrite to standalone using chat history.\<close>

definition rewrite_prompt :: "message_template list" where
  "rewrite_prompt =
     [SystemTemplate
        [Lit ''Rewrite the latest user message as a standalone question using chat_history.''],
      MessagesPlaceholder ''chat_history'',
      HumanTemplate [Var ''input'']]"

definition history_aware_retriever :: "(val \<Rightarrow> string) \<Rightarrow> RAGChainBuilder \<Rightarrow> dict \<Rightarrow> error + val" where
  "history_aware_retriever py_str self =
     create_history_aware_retriever py_str (model self) (retriever self) rewrite_prompt"

text \<open>2) Summarize chat history into actionable memory.\<close>

definition memory_system :: string where
  "memory_system =
     ''From chat_history and the latest user input, extract the user's\<newline>'' @
     ''preferences/constraints as short bullets: budget, brands, features,\<newline>'' @
     ''use-case, dislikes, previously chosen items.\<newline>'' @
     ''If nothing explicit, return \"none\".''"

definition memory_prompt :: "message_template list" where
  "memory_prompt =
     [SystemTemplate [Lit memory_system],
      MessagesPlaceholder ''chat_history'',
      HumanTemplate [Lit ''New request: '', Var ''input'']]"

definition memory_chain :: "(val \<Rightarrow> string) \<Rightarrow> RAGChainBuilder \<Rightarrow> dict \<Rightarrow> error + val" where
  "memory_chain py_str self =
     pipe (pipe (prompt_invoke py_str memory_prompt) (model self)) StrOutputParser"

text \<open>3) QA prompt that uses memory, context and general knowledge.\<close>

definition qa_system :: "part list" where
  "qa_system =
     [Lit (''You are a product recommender. Use THREE signals:\<newline>'' @
           ''\<newline>'' @
           ''1) **chat_history/memory**: tailor suggestions to the user's stated prefs/constraints.\<newline>'' @
           ''2) **CONTEXT** (retrieved docs): the source of truth for product facts (names, specs, reviews).\<newline>'' @
           ''   If a fact isn't in CONTEXT, don't assert it as certain.\<newline>'' @
           ''3) **General knowledge**: give generic buying tips, but never contradict CONTEXT.\<newline>'' @
           ''\<newline>'' @
           ''If the question is about the conversation itself (e.g., \"what did I ask first?\"),\<newline>'' @
           ''answer from chat_history/memory.\<newline>'' @
           ''\<newline>'' @
           ''Format answers in clean Markdown: brief TL;DR, short bullets, no rambling.\<newline>'' @
           ''\<newline>'' @
           ''MEMORY:\<newline>''),
      Var ''memory'',
      Lit (''\<newline>'' @ ''\<newline>'' @ ''CONTEXT:\<newline>''),
      Var ''context'']"

definition qa_prompt :: "message_template list" where
  "qa_prompt =
     [SystemTemplate qa_system,
      MessagesPlaceholder ''chat_history'',
      HumanTemplate [Lit ''QUESTION: '', Var ''input'']]"

definition combine_docs_chain :: "(val \<Rightarrow> string) \<Rightarrow> RAGChainBuilder \<Rightarrow> dict \<Rightarrow> error + val" where
  "combine_docs_chain py_str self = create_stuff_documents_chain py_str (model self) qa_prompt"

text \<open>
  The runnable map feeding the answer chain, and the chain itself:
  \<^verbatim>\<open>{"context": history_aware_retriever, "memory": memory_chain,
    "input": RunnablePassthrough()} | combine_docs_chain\<close>
\<close>

definition rag_inputs :: "(val \<Rightarrow> string) \<Rightarrow> RAGChainBuilder \<Rightarrow> dict \<Rightarrow> error + dict" where
  "rag_inputs py_str self =
     RunnableParallel
       [(''context'', history_aware_retriever py_str self),
        (''memory'', memory_chain py_str self),
        (''input'', RunnablePassthrough)]"

definition rag_with_memory :: "(val \<Rightarrow> string) \<Rightarrow> RAGChainBuilder \<Rightarrow> dict \<Rightarrow> error + val" where
  "rag_with_memory py_str self = pipe (rag_inputs py_str self) (combine_docs_chain py_str self)"

definition build_chain ::
  "(val \<Rightarrow> string) \<Rightarrow> RAGChainBuilder \<Rightarrow> heap \<Rightarrow> dict \<Rightarrow> string \<Rightarrow>
   (error + val) \<times> RAGChainBuilder \<times> heap" where
  "build_chain py_str =
     RunnableWithMessageHistory (rag_with_memory py_str) get_history
       ''input'' ''chat_history'' ''answer''"

text \<open>Calling the built chain on \<^verbatim>\<open>{"input": input}\<close> for the session \<open>session_id\<close>.\<close>

definition invoke ::
  "(val \<Rightarrow> string) \<Rightarrow> RAGChainBuilder \<Rightarrow> heap \<Rightarrow> string \<Rightarrow> string \<Rightarrow>
   (error + val) \<times> RAGChainBuilder \<times> heap" where
  "invoke py_str self h input session_id =
     build_chain py_str self h [(''input'', Str input)] session_id"

text \<open>The messages recorded for a session: none while the id is unknown.\<close>

definition session_messages :: "RAGChainBuilder \<Rightarrow> heap \<Rightarrow> string \<Rightarrow> message list" where
  "session_messages self h session_id =
     (case history_store self session_id of None \<Rightarrow> [] | Some a \<Rightarrow> h ! a)"

text \<open>
  Every history object the store names exists in the heap. \<^verbatim>\<open>__init__\<close> establishes this
  and \<open>get_history\<close> and \<open>add_messages\<close> keep it.
\<close>

definition valid :: "RAGChainBuilder \<Rightarrow> heap \<Rightarrow> bool" where
  "valid self h = (\<forall>a \<in> ran (history_store self). a < length h)"

section \<open>Concrete collaborators and requests\<close>

text \<open>
  A vector store that holds four documents and returns the first \<open>k\<close> of them, one that
  only answers searches for three documents, a model that always replies, and a model that
  is down. \<open>no_str\<close> stands in for Python's \<^verbatim>\<open>str()\<close> on values that are not strings.
\<close>

definition no_str :: "val \<Rightarrow> string" where
  "no_str v = []"

definition four_documents :: "val \<Rightarrow> nat \<Rightarrow> error + document list" where
  "four_documents query k =
     Inr (take k [Document ''phone A'' [], Document ''phone B'' [],
                  Document ''phone C'' [], Document ''phone D'' []])"

definition only_three :: "val \<Rightarrow> nat \<Rightarrow> error + document list" where
  "only_three query k =
     (if k = 3 then four_documents query 3 else Inl (UpstreamError ''unexpected k''))"

definition ok_model :: "message list \<Rightarrow> error + string" where
  "ok_model prompt = Inr ''ok''"

definition down_model :: "message list \<Rightarrow> error + string" where
  "down_model prompt = Inl (UpstreamError ''rate limit'')"

text \<open>The first request of a session, as the history wrapper hands it to the chain.\<close>

definition first_request :: dict where
  "first_request =
     [(''input'', Str ''Recommend a budget phone under $300''),
      (''chat_history'', Messages [])]"

text \<open>A first request that states no preference or constraint at all.\<close>

definition greeting_request :: dict where
  "greeting_request = [(''input'', Str ''hello''), (''chat_history'', Messages [])]"

text \<open>
  A model whose reply repeats everything the prompt holds after its system message, and a
  vector store whose documents hold the query they were found for.
\<close>

fun content :: "message \<Rightarrow> string" where
  "content (SystemMessage s) = s"
| "content (HumanMessage s) = s"
| "content (AIMessage s) = s"

definition echo_model :: "message list \<Rightarrow> error + string" where
  "echo_model prompt = Inr (''standalone: '' @ concat (map content (drop 1 prompt)))"

definition echo_store :: "val \<Rightarrow> nat \<Rightarrow> error + document list" where
  "echo_store query k =
     Inr (take k [Document (format_value no_str query) [], Document (format_value no_str query) [],
                  Document (format_value no_str query) [], Document (format_value no_str query) []])"

text \<open>A follow-up request of a session that already has one turn.\<close>

definition follow_up_request :: dict where
  "follow_up_request =
     [(''input'', Str ''which is cheaper?''),
      (''chat_history'', Messages [HumanMessage ''hi'', AIMessage ''hello''])]"

text \<open>A builder that knows the session \<^verbatim>\<open>s1\<close>, and a heap in which that session has one turn.\<close>

definition one_session :: RAGChainBuilder where
  "one_session =
     \<lparr>vector_store = four_documents, model = ok_model, history_store = [''s1'' \<mapsto> 0]\<rparr>"

definition one_turn :: heap where
  "one_turn = [[HumanMessage ''hi'', AIMessage ''hello'']]"

section \<open>Properties\<close>

lemma input_variables_rewrite_prompt:
  "input_variables rewrite_prompt = [''chat_history'', ''input'']"
  by (simp add: input_variables_def rewrite_prompt_def)

lemma input_variables_memory_prompt:
  "input_variables memory_prompt = [''chat_history'', ''input'']"
  by (simp add: input_variables_def memory_prompt_def)

lemma input_variables_qa_prompt:
  "input_variables qa_prompt = [''chat_history'', ''context'', ''input'', ''memory'']"
  by (simp add: input_variables_def qa_prompt_def qa_system_def)

lemmas chain_defs =
  invoke_def build_chain_def RunnableWithMessageHistory_def get_history_def ChatMessageHistory_def
  rag_with_memory_def rag_inputs_def RunnableParallel_def RunnablePassthrough_def pipe_def
  history_aware_retriever_def create_history_aware_retriever_def retriever_def as_retriever_def
  memory_chain_def combine_docs_chain_def create_stuff_documents_chain_def assign_def
  format_docs_def StrOutputParser_def prompt_invoke_def missing_variables_def input_variables_def
  rewrite_prompt_def memory_prompt_def qa_prompt_def qa_system_def format_text_def

lemmas example_defs =
  init_def no_str_def four_documents_def only_three_def ok_model_def down_model_def
  first_request_def greeting_request_def one_session_def one_turn_def
  echo_model_def echo_store_def follow_up_request_def

subsection \<open>The history store\<close>

lemma get_history_unseen:
  "history_store self session_id = None \<Longrightarrow>
   get_history self h session_id =
     (Inr (length h),
      self\<lparr>history_store := (history_store self)(session_id \<mapsto> length h)\<rparr>,
      h @ [[]])"
  by (simp add: get_history_def ChatMessageHistory_def)

lemma get_history_known:
  "history_store self session_id = Some a \<Longrightarrow> get_history self h session_id = (Inr a, self, h)"
  by (simp add: get_history_def)

lemma valid_init: "valid (init store chat_model) []"
  by (simp add: valid_def init_def)

lemma valid_get_history:
  assumes "valid self h"
  shows "valid (fst (snd (get_history self h session_id))) (snd (snd (get_history self h session_id)))"
proof (cases "history_store self session_id")
  case None
  have "ran ((history_store self)(session_id \<mapsto> length h)) \<subseteq> insert (length h) (ran (history_store self))"
    by (auto simp: ran_def)
  with assms None show ?thesis
    by (auto simp: get_history_unseen valid_def less_Suc_eq)
next
  case (Some a)
  with assms show ?thesis by (simp add: get_history_known)
qed

lemma valid_add_messages: "valid self h \<Longrightarrow> valid self (add_messages h a ms)"
  by (simp add: valid_def add_messages_def)

text \<open>
  C5. \<open>get_history\<close> never fails. For an id that is not yet a key it returns a new object
  (the next address of the heap), which has no messages and is now registered under the id.
  Whatever it returned for an id, every later call with that id returns the same object
  and changes nothing, whatever the heap has become in the meantime (the object may have
  received messages), and a call for any id keeps that registration.
\<close>

theorem get_history_contract:
  "(\<exists>a. fst (get_history self h session_id) = Inr a) \<and>
   (history_store self session_id = None \<longrightarrow>
      (\<exists>self' h'. get_history self h session_id = (Inr (length h), self', h') \<and>
         history_store self' session_id = Some (length h) \<and>
         length h' = Suc (length h) \<and> h' ! length h = [] \<and>
         session_messages self' h' session_id = [])) \<and>
   (\<forall>a self' h'. get_history self h session_id = (Inr a, self', h') \<longrightarrow>
      (\<forall>h2. get_history self' h2 session_id = (Inr a, self', h2)) \<and>
      (\<forall>t h2. history_store (fst (snd (get_history self' h2 t))) session_id = Some a))"
proof (cases "history_store self session_id")
  case None
  then show ?thesis
    by (auto simp: get_history_unseen get_history_known session_messages_def)
       (auto simp: get_history_def ChatMessageHistory_def split: option.splits if_splits)
next
  case (Some a)
  then show ?thesis
    by (auto simp: get_history_known)
       (auto simp: get_history_def ChatMessageHistory_def split: option.splits if_splits)
qed

theorem get_history_contract_witness:
  "history_store (init four_documents ok_model) ''s1'' = None \<and>
   get_history (init four_documents ok_model) [] ''s1'' = (Inr 0, one_session, [[]]) \<and>
   get_history one_session one_turn ''s1'' = (Inr 0, one_session, one_turn) \<and>
   history_store (fst (snd (get_history one_session one_turn ''s2''))) ''s1'' = Some 0"
  using get_history_contract [of "init four_documents ok_model" "[]" "''s1''"]
  by (simp add: get_history_def ChatMessageHistory_def example_defs)

text \<open>
  C10. For two distinct session ids \<open>s\<close> and \<open>t\<close>, \<open>get_history\<close> on \<open>s\<close> leaves the
  registration of \<open>t\<close> as it was, leaves every existing history object as it was, and so
  leaves the messages of \<open>t\<close> unchanged. When \<open>s\<close> is already registered the call changes
  neither the store nor the heap.
\<close>

theorem get_history_frame:
  "(s \<noteq> t \<longrightarrow>
      history_store (fst (snd (get_history self h s))) t = history_store self t \<and>
      take (length h) (snd (snd (get_history self h s))) = h \<and>
      (valid self h \<longrightarrow>
         session_messages (fst (snd (get_history self h s))) (snd (snd (get_history self h s))) t =
         session_messages self h t)) \<and>
   (history_store self s \<noteq> None \<longrightarrow> snd (get_history self h s) = (self, h))"
  by (cases "history_store self s")
     (auto simp: get_history_unseen get_history_known session_messages_def valid_def ran_def
        nth_append split: option.splits)

theorem get_history_frame_witness:
  "''s2'' \<noteq> ''s1'' \<and> valid one_session one_turn \<and>
   history_store (fst (snd (get_history one_session one_turn ''s2''))) ''s1'' = Some 0 \<and>
   session_messages (fst (snd (get_history one_session one_turn ''s2'')))
     (snd (snd (get_history one_session one_turn ''s2''))) ''s1'' =
     [HumanMessage ''hi'', AIMessage ''hello''] \<and>
   history_store one_session ''s1'' \<noteq> None \<and>
   snd (get_history one_session one_turn ''s1'') = (one_session, one_turn)"
  using get_history_frame [of "''s2''" "''s1''" one_session one_turn]
    get_history_frame [of "''s1''" "''s1''" one_session one_turn]
  by (simp add: valid_def session_messages_def get_history_def ChatMessageHistory_def
        example_defs)

subsection \<open>What reaches the answer chain\<close>

lemma qa_prompt_needs_chat_history:
  "map_of d ''chat_history'' = None \<Longrightarrow>
   \<exists>ks. prompt_invoke py_str qa_prompt d = Inl (KeyError ks) \<and> ''chat_history'' \<in> set ks"
  by (simp add: prompt_invoke_def missing_variables_def input_variables_qa_prompt)

lemma map_of_update_other: "k \<noteq> k' \<Longrightarrow> map_of (AList.update k v d) k' = map_of d k'"
  by (simp add: update_conv')

lemma combine_docs_chain_needs_chat_history:
  assumes "map_of d ''chat_history'' = None"
  shows "\<exists>e. combine_docs_chain py_str self d = Inl e"
proof (cases "format_docs d")
  case (Inl e)
  then show ?thesis
    by (simp add: combine_docs_chain_def create_stuff_documents_chain_def pipe_def assign_def)
next
  case (Inr v)
  from assms have "map_of (AList.update ''context'' v d) ''chat_history'' = None"
    by (simp add: map_of_update_other)
  from qa_prompt_needs_chat_history [OF this, of py_str] Inr show ?thesis
    by (auto simp add: combine_docs_chain_def create_stuff_documents_chain_def pipe_def
          assign_def)
qed

lemma history_aware_retriever_documents:
  "history_aware_retriever py_str self x = Inr v \<Longrightarrow> \<exists>ds. v = Documents ds"
  by (auto simp: history_aware_retriever_def create_history_aware_retriever_def retriever_def
        as_retriever_def pipe_def StrOutputParser_def map_sum_def
      split: if_splits option.splits sum.splits)

lemma memory_chain_string: "memory_chain py_str self x = Inr v \<Longrightarrow> \<exists>s. v = Str s"
  by (auto simp: memory_chain_def pipe_def StrOutputParser_def split: sum.splits)

text \<open>
  Whenever the runnable map returns, it returns exactly three entries, and the entry
  \<^verbatim>\<open>input\<close> is the whole dictionary the map was invoked on.
\<close>

lemma rag_inputs_shape:
  assumes "rag_inputs py_str self x = Inr d"
  shows "\<exists>ds m. d = [(''context'', Documents ds), (''memory'', Str m), (''input'', Dict x)]"
proof -
  from assms obtain c m where c: "history_aware_retriever py_str self x = Inr c"
    and m: "memory_chain py_str self x = Inr m"
    and d: "d = [(''context'', c), (''memory'', m), (''input'', Dict x)]"
    by (auto simp: rag_inputs_def RunnableParallel_def RunnablePassthrough_def map_sum_def
        split: sum.splits)
  with history_aware_retriever_documents [OF c] memory_chain_string [OF m] show ?thesis
    by auto
qed

lemma rag_with_memory_raises: "\<exists>e. rag_with_memory py_str self x = Inl e"
proof (cases "rag_inputs py_str self x")
  case (Inl e)
  then show ?thesis by (simp add: rag_with_memory_def pipe_def)
next
  case (Inr d)
  from rag_inputs_shape [OF Inr] have "map_of d ''chat_history'' = None" by auto
  from combine_docs_chain_needs_chat_history [OF this, of py_str self] Inr show ?thesis
    by (auto simp: rag_with_memory_def pipe_def)
qed

text \<open>The chain reads the builder's model and vector store only, the latter for \<open>k = 3\<close>.\<close>

lemma rag_with_memory_fields:
  "model self1 = model self2 \<Longrightarrow> \<forall>q. vector_store self1 q 3 = vector_store self2 q 3 \<Longrightarrow>
   rag_with_memory py_str self1 x = rag_with_memory py_str self2 x"
  by (simp add: rag_with_memory_def rag_inputs_def RunnableParallel_def pipe_def
        history_aware_retriever_def create_history_aware_retriever_def retriever_def
        as_retriever_def memory_chain_def combine_docs_chain_def
      split: option.splits sum.splits)

text \<open>
  The chain is invoked on the raw input and, as \<^verbatim>\<open>chat_history\<close>, the messages the session
  had before the call; the state after the call is the state after \<open>get_history\<close>.
\<close>

lemma invoke_unfold:
  "invoke py_str self h input session_id =
     (case get_history self h session_id of
        (r, self', h') \<Rightarrow>
          (rag_with_memory py_str self'
             [(''input'', Str input),
              (''chat_history'', Messages (session_messages self' h' session_id))],
           self', h'))"
proof (cases "history_store self session_id")
  case None
  obtain e where
    "rag_with_memory py_str
       (self\<lparr>history_store := (history_store self)(session_id \<mapsto> length h)\<rparr>)
       [(''input'', Str input), (''chat_history'', Messages [])] = Inl e"
    using rag_with_memory_raises by blast
  with None show ?thesis
    by (simp add: invoke_def build_chain_def RunnableWithMessageHistory_def get_history_def
          ChatMessageHistory_def session_messages_def)
next
  case (Some a)
  obtain e where
    "rag_with_memory py_str self [(''input'', Str input), (''chat_history'', Messages (h ! a))]
       = Inl e"
    using rag_with_memory_raises by blast
  with Some show ?thesis
    by (simp add: invoke_def build_chain_def RunnableWithMessageHistory_def get_history_def
          session_messages_def)
qed






text \<open>
  The history wrapper by itself records a turn when the runnable it wraps returns a
  dictionary with a string under \<^verbatim>\<open>answer\<close>.
\<close>

lemma wrapper_records_turn:
  assumes "get_session_history s h session_id = (Inr a, s', h')"
    and "runnable s' (AList.update ''chat_history'' (Messages (h' ! a)) [(''input'', Str input)])
           = Inr (Dict d)"
    and "map_of d ''answer'' = Some (Str answer)"
  shows "RunnableWithMessageHistory runnable get_session_history
           ''input'' ''chat_history'' ''answer'' s h [(''input'', Str input)] session_id =
         (Inr (Dict d), s', h'[a := h' ! a @ [HumanMessage input, AIMessage answer]])"
  using assms
  by (simp add: RunnableWithMessageHistory_def exit_history_def get_messages_def
        add_messages_def)

subsection \<open>A turn on the built chain\<close>




text \<open>
  C2. The rewriter, the summarizer and the answer generator should all be given the same
  \<^verbatim>\<open>chat_history\<close>. On the first request the runnable map returns the keys
  \<^verbatim>\<open>context\<close>, \<^verbatim>\<open>memory\<close> and \<^verbatim>\<open>input\<close> only: the answer generator is given no
  \<^verbatim>\<open>chat_history\<close>, and its prompt raises for it.
\<close>

theorem answer_chain_gets_no_chat_history:
  "map_sum id (map fst) (rag_inputs no_str (init four_documents ok_model) first_request) =
     Inr [''context'', ''memory'', ''input''] \<and>
   rag_with_memory no_str (init four_documents ok_model) first_request =
     Inl (KeyError [''chat_history''])"
  by (simp add: chain_defs example_defs)

text \<open>
  C3. The answer generator should receive \<^verbatim>\<open>input\<close>, \<^verbatim>\<open>chat_history\<close>, \<^verbatim>\<open>context\<close> and
  \<^verbatim>\<open>memory\<close>, with the user's message string under \<^verbatim>\<open>input\<close>. On the first request it
  receives three entries, and under \<^verbatim>\<open>input\<close> the whole request dictionary (the message
  and the chat history), not the message string.
\<close>

theorem answer_chain_input_is_whole_request:
  "rag_inputs no_str (init four_documents ok_model) first_request =
     Inr [(''context'',
           Documents [Document ''phone A'' [], Document ''phone B'' [], Document ''phone C'' []]),
          (''memory'', Str ''ok''),
          (''input'',
           Dict [(''input'', Str ''Recommend a budget phone under $300''),
                 (''chat_history'', Messages [])])]"
  by (simp add: chain_defs example_defs)

text \<open>
  C4. Invoking the built chain should return the answer as a string under the key
  \<^verbatim>\<open>answer\<close>, for any session id. With a vector store and a model that both answer, the
  call returns nothing: it raises \<^verbatim>\<open>KeyError\<close>. And where the answer chain is handed all
  four variables, what it returns is the bare answer string, not a dictionary.
\<close>

theorem invoke_returns_no_answer:
  "fst (invoke no_str (init four_documents ok_model) [] ''hello'' ''any session id'') =
     Inl (KeyError [''chat_history'']) \<and>
   combine_docs_chain no_str (init four_documents ok_model)
     [(''context'', Documents [Document ''phone A'' []]), (''memory'', Str ''none''),
      (''chat_history'', Messages []), (''input'', Str ''hello'')] = Inr (Str ''ok'')"
  by (simp add: chain_defs example_defs)

subsection \<open>The preference summarizer\<close>

text \<open>
  C7, as claimed: when the conversation states no preference, the summarizer's output is
  the string \<^verbatim>\<open>none\<close>. The request below is a greeting on an empty history, and the model
  replies \<^verbatim>\<open>ok\<close>: the summarizer's output is not \<^verbatim>\<open>none\<close>.
\<close>

theorem summary_can_differ_from_none:
  "memory_chain no_str (init four_documents ok_model) greeting_request \<noteq> Inr (Str ''none'')"
  by (simp add: chain_defs example_defs)

text \<open>
  C7, amended. On a request with a message list as \<^verbatim>\<open>chat_history\<close> and a string as
  \<^verbatim>\<open>input\<close>, the summarizer's output is the model's reply, unchanged, to the prompt made of
  the system instruction, the chat history and \<^verbatim>\<open>New request: \<close> followed by the input.
  The instruction ends by asking for \<^verbatim>\<open>none\<close> when nothing is explicit, and the output is
  \<^verbatim>\<open>none\<close> exactly when the model's reply is.
\<close>

theorem memory_chain_returns_model_reply:
  assumes "map_of x ''chat_history'' = Some (Messages history)"
    and "map_of x ''input'' = Some (Str input)"
  shows "memory_chain py_str self x =
           map_sum id Str (model self
             (SystemMessage memory_system # history @
              [HumanMessage (''New request: '' @ input)])) \<and>
         (\<exists>before. memory_system = before @ ''If nothing explicit, return \"none\".'') \<and>
         (memory_chain py_str self x = Inr (Str ''none'') \<longleftrightarrow>
          model self
            (SystemMessage memory_system # history @
             [HumanMessage (''New request: '' @ input)]) = Inr ''none'')"
proof -
  have reply: "memory_chain py_str self x =
           map_sum id Str (model self
             (SystemMessage memory_system # history @
              [HumanMessage (''New request: '' @ input)]))"
    using assms
    by (simp add: memory_chain_def pipe_def StrOutputParser_def prompt_invoke_def
          missing_variables_def input_variables_def memory_prompt_def format_text_def
          map_sum_def
        split: sum.splits)
  have instruction: "\<exists>before. memory_system = before @ ''If nothing explicit, return \"none\".''"
    unfolding memory_system_def by (metis append.assoc)
  from reply instruction show ?thesis
    by (auto simp: map_sum_def split: sum.splits)
qed

theorem memory_chain_returns_model_reply_witness:
  "map_of greeting_request ''chat_history'' = Some (Messages []) \<and>
   map_of greeting_request ''input'' = Some (Str ''hello'') \<and>
   memory_chain no_str (init four_documents ok_model) greeting_request = Inr (Str ''ok'') \<and>
   ok_model [SystemMessage memory_system, HumanMessage ''New request: hello''] \<noteq> Inr ''none''"
  using memory_chain_returns_model_reply [where x = greeting_request and history = "[]"
     and input = "''hello''" and py_str = no_str and self = "init four_documents ok_model"]
  by (simp add: example_defs)

subsection \<open>Retrieval\<close>

lemma history_aware_retriever_store:
  "\<forall>q. store q 3 = vector_store self q 3 \<Longrightarrow>
   history_aware_retriever py_str (self\<lparr>vector_store := store\<rparr>) x =
   history_aware_retriever py_str self x"
  by (simp add: history_aware_retriever_def create_history_aware_retriever_def retriever_def
        as_retriever_def pipe_def split: option.splits sum.splits)

lemma invoke_store:
  assumes "\<forall>q. store q 3 = vector_store self q 3"
  shows "fst (invoke py_str (self\<lparr>vector_store := store\<rparr>) h input session_id) =
         fst (invoke py_str self h input session_id)"
proof (cases "history_store self session_id")
  case None
  with assms show ?thesis
    by (simp add: invoke_unfold get_history_unseen session_messages_def
          rag_with_memory_fields [of
            "self\<lparr>vector_store := store,
               history_store := (history_store self)(session_id \<mapsto> length h)\<rparr>"
            "self\<lparr>history_store := (history_store self)(session_id \<mapsto> length h)\<rparr>"])
next
  case (Some a)
  with assms show ?thesis
    by (simp add: invoke_unfold get_history_known session_messages_def
          rag_with_memory_fields [of "self\<lparr>vector_store := store\<rparr>" self])
qed

text \<open>
  C8. The retriever of the chain asks the vector store for 3 documents: it is the store's
  search with \<open>k = 3\<close>; the documents the retrieval step returns are the store's answer for
  some query with \<open>k = 3\<close>; and a store that answers every search for 3 documents in the
  same way gives the same retrieval and the same result of the whole call, whatever it
  would answer for another \<open>k\<close>. The query is pinned: on a request whose \<^verbatim>\<open>chat_history\<close>
  is empty the store is searched for the raw input, and on a request with chat history it
  is searched for the model's reply to the rewrite prompt (the instruction, the history,
  the input), the retrieval raising what the model raises.
\<close>

theorem retrieval_asks_for_three:
  "retriever self q = map_sum id Documents (vector_store self q 3) \<and>
   (history_aware_retriever py_str self x = Inr v \<longrightarrow>
      (\<exists>q ds. vector_store self q 3 = Inr ds \<and> v = Documents ds)) \<and>
   ((\<forall>q. store q 3 = vector_store self q 3) \<longrightarrow>
      history_aware_retriever py_str (self\<lparr>vector_store := store\<rparr>) x =
        history_aware_retriever py_str self x \<and>
      fst (invoke py_str (self\<lparr>vector_store := store\<rparr>) h input session_id) =
        fst (invoke py_str self h input session_id)) \<and>
   (map_of x ''input'' = Some (Str input) \<longrightarrow>
      (map_of x ''chat_history'' = Some (Messages []) \<longrightarrow>
         history_aware_retriever py_str self x =
           map_sum id Documents (vector_store self (Str input) 3)) \<and>
      (\<forall>history. history \<noteq> [] \<and> map_of x ''chat_history'' = Some (Messages history) \<longrightarrow>
         history_aware_retriever py_str self x =
           (case model self
                   (SystemMessage
                      ''Rewrite the latest user message as a standalone question using chat_history.''
                    # history @ [HumanMessage input]) of
              Inl e \<Rightarrow> Inl e
            | Inr query \<Rightarrow> map_sum id Documents (vector_store self (Str query) 3))))"
proof (intro conjI impI allI)
  show "retriever self q = map_sum id Documents (vector_store self q 3)"
    by (simp add: retriever_def as_retriever_def)
next
  assume "history_aware_retriever py_str self x = Inr v"
  then show "\<exists>q ds. vector_store self q 3 = Inr ds \<and> v = Documents ds"
    by (auto simp: history_aware_retriever_def create_history_aware_retriever_def retriever_def
          as_retriever_def pipe_def StrOutputParser_def map_sum_def
        split: if_splits option.splits sum.splits)
next
  assume "\<forall>q. store q 3 = vector_store self q 3"
  then show "history_aware_retriever py_str (self\<lparr>vector_store := store\<rparr>) x =
        history_aware_retriever py_str self x"
    by (rule history_aware_retriever_store)
next
  assume "\<forall>q. store q 3 = vector_store self q 3"
  then show "fst (invoke py_str (self\<lparr>vector_store := store\<rparr>) h input session_id) =
        fst (invoke py_str self h input session_id)"
    by (rule invoke_store)
next
  assume "map_of x ''input'' = Some (Str input)" "map_of x ''chat_history'' = Some (Messages [])"
  then show "history_aware_retriever py_str self x =
           map_sum id Documents (vector_store self (Str input) 3)"
    by (simp add: history_aware_retriever_def create_history_aware_retriever_def retriever_def
          as_retriever_def)
next
  fix history
  assume "map_of x ''input'' = Some (Str input)"
    "history \<noteq> [] \<and> map_of x ''chat_history'' = Some (Messages history)"
  then show "history_aware_retriever py_str self x =
           (case model self
                   (SystemMessage
                      ''Rewrite the latest user message as a standalone question using chat_history.''
                    # history @ [HumanMessage input]) of
              Inl e \<Rightarrow> Inl e
            | Inr query \<Rightarrow> map_sum id Documents (vector_store self (Str query) 3))"
    by (simp add: history_aware_retriever_def create_history_aware_retriever_def retriever_def
          as_retriever_def pipe_def StrOutputParser_def prompt_invoke_def missing_variables_def
          input_variables_def rewrite_prompt_def format_text_def
        split: sum.splits)
qed

theorem retrieval_asks_for_three_witness:
  "map_of follow_up_request ''input'' = Some (Str ''which is cheaper?'') \<and>
   map_of follow_up_request ''chat_history'' =
     Some (Messages [HumanMessage ''hi'', AIMessage ''hello'']) \<and>
   history_aware_retriever no_str (init echo_store echo_model) follow_up_request =
     Inr (Documents
       [Document ''standalone: hihellowhich is cheaper?'' [],
        Document ''standalone: hihellowhich is cheaper?'' [],
        Document ''standalone: hihellowhich is cheaper?'' []]) \<and>
   (\<forall>q. only_three q 3 = vector_store (init four_documents ok_model) q 3) \<and>
   history_aware_retriever no_str
     ((init four_documents ok_model)\<lparr>vector_store := only_three\<rparr>) first_request =
     Inr (Documents [Document ''phone A'' [], Document ''phone B'' [], Document ''phone C'' []])"
proof -
  have i: "map_of follow_up_request ''input'' = Some (Str ''which is cheaper?'')"
    by (simp add: follow_up_request_def)
  have c: "map_of follow_up_request ''chat_history'' =
      Some (Messages [HumanMessage ''hi'', AIMessage ''hello''])"
    by (simp add: follow_up_request_def)
  have "\<forall>history. history \<noteq> [] \<and>
      map_of follow_up_request ''chat_history'' = Some (Messages history) \<longrightarrow>
      history_aware_retriever no_str (init echo_store echo_model) follow_up_request =
        (case model (init echo_store echo_model)
                (SystemMessage
                   ''Rewrite the latest user message as a standalone question using chat_history.''
                 # history @ [HumanMessage ''which is cheaper?'']) of
           Inl e \<Rightarrow> Inl e
         | Inr query \<Rightarrow>
             map_sum id Documents (vector_store (init echo_store echo_model) (Str query) 3))"
    using retrieval_asks_for_three [where self = "init echo_store echo_model" and py_str = no_str
      and x = follow_up_request and input = "''which is cheaper?''" and q = "Str []"
      and v = "Str []" and store = echo_store and h = "[]" and session_id = "[]"] i
    by blast
  from this [rule_format, of "[HumanMessage ''hi'', AIMessage ''hello'']"] c
  have pinned: "history_aware_retriever no_str (init echo_store echo_model) follow_up_request =
     Inr (Documents
       [Document ''standalone: hihellowhich is cheaper?'' [],
        Document ''standalone: hihellowhich is cheaper?'' [],
        Document ''standalone: hihellowhich is cheaper?'' []])"
    by (simp add: init_def echo_model_def echo_store_def no_str_def)
  have same: "\<forall>q. only_three q 3 = vector_store (init four_documents ok_model) q 3"
    by (simp add: init_def only_three_def)
  have "history_aware_retriever no_str
     ((init four_documents ok_model)\<lparr>vector_store := only_three\<rparr>) first_request =
     history_aware_retriever no_str (init four_documents ok_model) first_request"
    using retrieval_asks_for_three [where self = "init four_documents ok_model" and py_str = no_str
      and x = first_request and input = "[]" and q = "Str []"
      and v = "Str []" and store = only_three and h = "[]" and session_id = "[]"] same
    by blast
  also have "\<dots> =
     Inr (Documents [Document ''phone A'' [], Document ''phone B'' [], Document ''phone C'' []])"
    by (simp add: history_aware_retriever_def create_history_aware_retriever_def retriever_def
          as_retriever_def init_def four_documents_def first_request_def)
  finally show ?thesis using i c pinned same by simp
qed

text \<open>
  C9. On a request whose \<^verbatim>\<open>chat_history\<close> is the empty list, the retrieval step is the
  vector store's search for 3 documents on the raw input string itself, whatever the model
  is: the model is not asked to rewrite anything.
\<close>

theorem empty_history_query_is_raw_input:
  "map_of x ''chat_history'' = Some (Messages []) \<Longrightarrow>
   map_of x ''input'' = Some (Str input) \<Longrightarrow>
   history_aware_retriever py_str (self\<lparr>model := llm\<rparr>) x =
     map_sum id Documents (vector_store self (Str input) 3)"
  by (simp add: history_aware_retriever_def create_history_aware_retriever_def retriever_def
        as_retriever_def)

theorem empty_history_query_is_raw_input_witness:
  "map_of first_request ''chat_history'' = Some (Messages []) \<and>
   map_of first_request ''input'' = Some (Str ''Recommend a budget phone under $300'') \<and>
   history_aware_retriever no_str
     ((init four_documents ok_model)\<lparr>model := down_model\<rparr>) first_request =
     Inr (Documents [Document ''phone A'' [], Document ''phone B'' [], Document ''phone C'' []])"
  using empty_history_query_is_raw_input [where x = first_request
     and input = "''Recommend a budget phone under $300''" and py_str = no_str
     and self = "init four_documents ok_model" and llm = down_model]
  by (simp add: example_defs)

end
